theory Spec2Isabelle
  imports Main "HOL-Library.AList"
begin

section \<open>The part of the document object model that aria-accordion.js uses\<close>

text \<open>
  The script runs against the browser's DOM. The model keeps what the script reads and
  writes. Every element object lives in a store (\<open>elems\<close>, an association list from
  references, which are numbers, to elements; \<open>elem d n\<close> reads it), and the document is
  the list of attached elements in tree order, each with its depth (\<open>tree\<close>). An
  element's subtree is the run of entries that follows it at a greater depth; its
  children are the entries of that run exactly one level below it. \<open>timers\<close> records
  the callbacks \<open>setTimeout(() => x.focus(), 0)\<close> that are pending: the element whose
  \<open>focus()\<close> will be called.

  Exceptions are values. \<open>TypeError\<close> is what JavaScript throws on a property access on
  \<open>null\<close> or \<open>undefined\<close> and on a call of a value that is no function;
  \<open>NotFoundError\<close> is the \<open>DOMException\<close> of \<open>insertBefore\<close>.
  \<open>MissingHeaderError\<close> is the error the specification names; no statement of the
  source raises it.
\<close>

datatype error = TypeError | NotFoundError | MissingHeaderError

text \<open>The CSS selectors of the default configuration: \<open>tag\<close>, \<open>.class\<close>, \<open>tag.class\<close>.\<close>

datatype selector = Tag string | Class string | TagClass string string

record element =
  tagName :: string
  classList :: "string list"
  attributes :: "(string \<times> string) list"
  innerHTML :: string
  innerText :: string

record dom =
  elems :: "(nat \<times> element) list"
  tree :: "(nat \<times> nat) list"
  timers :: "nat list"

definition blank :: element where
  "blank = \<lparr>tagName = [], classList = [], attributes = [], innerHTML = [], innerText = []\<rparr>"

definition elem :: "dom \<Rightarrow> nat \<Rightarrow> element" where
  "elem d n = (case map_of (elems d) n of None \<Rightarrow> blank | Some e \<Rightarrow> e)"

definition put :: "dom \<Rightarrow> nat \<Rightarrow> element \<Rightarrow> dom" where
  "put d n e = d\<lparr>elems := AList.update n e (elems d)\<rparr>"

fun matches :: "element \<Rightarrow> selector \<Rightarrow> bool" where
  "matches e (Tag t) = (tagName e = t)"
| "matches e (Class c) = (c \<in> set (classList e))"
| "matches e (TagClass t c) = (tagName e = t \<and> c \<in> set (classList e))"

definition getAttribute :: "dom \<Rightarrow> nat \<Rightarrow> string \<Rightarrow> string option" where
  "getAttribute d n k = map_of (attributes (elem d n)) k"

definition hasAttribute :: "dom \<Rightarrow> nat \<Rightarrow> string \<Rightarrow> bool" where
  "hasAttribute d n k = (getAttribute d n k \<noteq> None)"

definition setAttribute :: "dom \<Rightarrow> nat \<Rightarrow> string \<Rightarrow> string \<Rightarrow> dom" where
  "setAttribute d n k v =
     put d n ((elem d n)\<lparr>attributes := AList.update k v (attributes (elem d n))\<rparr>)"

definition removeAttribute :: "dom \<Rightarrow> nat \<Rightarrow> string \<Rightarrow> dom" where
  "removeAttribute d n k =
     put d n ((elem d n)\<lparr>attributes := AList.delete k (attributes (elem d n))\<rparr>)"

definition classList_add :: "dom \<Rightarrow> nat \<Rightarrow> string \<Rightarrow> dom" where
  "classList_add d n c =
     put d n ((elem d n)\<lparr>classList :=
        (if c \<in> set (classList (elem d n)) then classList (elem d n)
         else classList (elem d n) @ [c])\<rparr>)"

definition set_innerHTML :: "dom \<Rightarrow> nat \<Rightarrow> string \<Rightarrow> dom" where
  "set_innerHTML d n v = put d n ((elem d n)\<lparr>innerHTML := v\<rparr>)"

text \<open>The \<open>id\<close> property of an element: its \<open>id\<close> attribute, the empty string when absent.\<close>

definition elem_id :: "dom \<Rightarrow> nat \<Rightarrow> string" where
  "elem_id d n = (case getAttribute d n ''id'' of None \<Rightarrow> [] | Some v \<Rightarrow> v)"

definition depth_of :: "dom \<Rightarrow> nat \<Rightarrow> nat option" where
  "depth_of d n =
     (case dropWhile (\<lambda>e. snd e \<noteq> n) (tree d) of [] \<Rightarrow> None | e # _ \<Rightarrow> Some (fst e))"

definition descendants :: "dom \<Rightarrow> nat \<Rightarrow> (nat \<times> nat) list" where
  "descendants d n =
     (case dropWhile (\<lambda>e. snd e \<noteq> n) (tree d) of
        [] \<Rightarrow> []
      | e # rest \<Rightarrow> takeWhile (\<lambda>x. fst e < fst x) rest)"

definition querySelectorAll :: "dom \<Rightarrow> nat \<Rightarrow> selector \<Rightarrow> nat list" where
  "querySelectorAll d n sel =
     map snd (filter (\<lambda>x. matches (elem d (snd x)) sel) (descendants d n))"

text \<open>\<open>querySelector\<close> returns the first match in tree order, \<open>null\<close> (\<open>None\<close>) when there is none.\<close>

definition querySelector :: "dom \<Rightarrow> nat \<Rightarrow> selector \<Rightarrow> nat option" where
  "querySelector d n sel =
     (case querySelectorAll d n sel of [] \<Rightarrow> None | a # _ \<Rightarrow> Some a)"

text \<open>
  \<open>document.getElementById\<close>: the first element of the document, in tree order, whose
  \<open>id\<close> attribute is the argument; the empty string is no identifier.
\<close>

definition getElementById :: "dom \<Rightarrow> string \<Rightarrow> nat option" where
  "getElementById d i =
     (if i = [] then None
      else case filter (\<lambda>x. getAttribute d (snd x) ''id'' = Some i) (tree d) of
             [] \<Rightarrow> None
           | x # _ \<Rightarrow> Some (snd x))"

text \<open>
  \<open>parentNode\<close>: the nearest preceding entry one level up; \<open>null\<close> for an element that is
  not attached and for the top of the tree.
\<close>

definition parentNode :: "dom \<Rightarrow> nat \<Rightarrow> nat option" where
  "parentNode d n =
     (case dropWhile (\<lambda>e. snd e \<noteq> n) (tree d) of
        [] \<Rightarrow> None
      | e # _ \<Rightarrow>
          (case filter (\<lambda>x. Suc (fst x) = fst e) (rev (takeWhile (\<lambda>e. snd e \<noteq> n) (tree d))) of
             [] \<Rightarrow> None
           | p # _ \<Rightarrow> Some (snd p)))"

text \<open>
  \<open>cloneNode()\<close> without argument is a shallow copy: tag, classes and attributes, no
  content. The copy is a new object; its reference is the least number above every
  attached element (the script attaches each copy before it makes the next one).
\<close>

fun bound :: "(nat \<times> nat) list \<Rightarrow> nat" where
  "bound [] = 0"
| "bound (e # t) = max (Suc (snd e)) (bound t)"

definition cloneNode :: "dom \<Rightarrow> element \<Rightarrow> nat \<times> dom" where
  "cloneNode d e = (bound (tree d), put d (bound (tree d)) (e\<lparr>innerHTML := [], innerText := []\<rparr>))"

text \<open>
  \<open>parent.insertBefore(new, ref)\<close> throws \<open>NotFoundError\<close> unless \<open>ref\<close> is a child of
  \<open>parent\<close>; otherwise \<open>new\<close> becomes the sibling immediately before \<open>ref\<close>.
\<close>

fun ins :: "nat \<times> nat \<Rightarrow> nat \<Rightarrow> (nat \<times> nat) list \<Rightarrow> (nat \<times> nat) list" where
  "ins e r [] = []"
| "ins e r (x # t) = (if snd x = r then e # x # t else x # ins e r t)"

definition insertBefore :: "dom \<Rightarrow> nat \<Rightarrow> nat \<Rightarrow> nat \<Rightarrow> error + dom" where
  "insertBefore d parent new ref =
     (case (depth_of d parent, depth_of d ref) of
        (Some dp, Some dc) \<Rightarrow>
          if dc = Suc dp \<and> ref \<in> set (map snd (descendants d parent))
          then Inr (d\<lparr>tree := ins (dc, new) ref (tree d)\<rparr>)
          else Inl NotFoundError
      | _ \<Rightarrow> Inl NotFoundError)"

text \<open>\<open>Number.prototype.toString\<close> on an array index: its decimal digits.\<close>

definition digit :: "nat \<Rightarrow> char" where
  "digit n = ''0123456789'' ! n"

fun toString :: "nat \<Rightarrow> string" where
  "toString n = (if n < 10 then [digit n] else toString (n div 10) @ [digit (n mod 10)])"

declare toString.simps [simp del]

section \<open>aria-accordion.js\<close>

subsection \<open>Static members\<close>

text \<open>
  \<open>AriaAccordion.closest(element, selector)\<close>: the element itself or its nearest ancestor
  that matches, \<open>null\<close> when the walk passes the \<open>html\<close> element or leaves the tree.
\<close>

function closest :: "dom \<Rightarrow> nat option \<Rightarrow> selector \<Rightarrow> nat option" where
  "closest d None sel = None"
| "closest d (Some n) sel =
     (if matches (elem d n) sel then Some n
      else if tagName (elem d n) = ''html'' then None
      else closest d (parentNode d n) sel)"
  by pat_completeness auto
termination
proof (relation "measure (\<lambda>(d, x, sel).
    case x of None \<Rightarrow> 0 | Some n \<Rightarrow> Suc (length (takeWhile (\<lambda>e. snd e \<noteq> n) (tree d))))")
  show "wf (measure (\<lambda>(d, x, sel).
    case x of None \<Rightarrow> 0 | Some n \<Rightarrow> Suc (length (takeWhile (\<lambda>e. snd e \<noteq> n) (tree d)))))"
    by simp
next
  fix d :: dom and n :: nat and sel :: selector
  have shorter: "length (takeWhile P xs) < length xs" if "x \<in> set xs" "\<not> P x"
    for P and x :: "nat \<times> nat" and xs
    using that by (induction xs) auto
  have earlier: "length (takeWhile (\<lambda>e. snd e \<noteq> p) (tree d))
      < length (takeWhile (\<lambda>e. snd e \<noteq> n) (tree d))" if "parentNode d n = Some p" for p
  proof -
    let ?pre = "takeWhile (\<lambda>e. snd e \<noteq> n) (tree d)"
    let ?up = "filter (\<lambda>x. Suc (fst x) = fst (hd (dropWhile (\<lambda>e. snd e \<noteq> n) (tree d)))) (rev ?pre)"
    from that obtain x xs where "?up = x # xs" and p: "snd x = p"
      by (auto simp: parentNode_def split: list.splits)
    then have "x \<in> set ?up"
      by simp
    with p have x: "x \<in> set ?pre" "\<not> snd x \<noteq> p"
      by simp_all
    have "takeWhile (\<lambda>e. snd e \<noteq> p) (tree d)
        = takeWhile (\<lambda>e. snd e \<noteq> p) (?pre @ dropWhile (\<lambda>e. snd e \<noteq> n) (tree d))"
      by simp
    also have "\<dots> = takeWhile (\<lambda>e. snd e \<noteq> p) ?pre"
      using x by (intro takeWhile_append1 [where x = x]) auto
    finally have "takeWhile (\<lambda>e. snd e \<noteq> p) (tree d) = takeWhile (\<lambda>e. snd e \<noteq> p) ?pre" .
    moreover have "length (takeWhile (\<lambda>e. snd e \<noteq> p) ?pre) < length ?pre"
      using x by (rule shorter)
    ultimately show ?thesis
      by simp
  qed
  show "((d, parentNode d n, sel), d, Some n, sel) \<in> measure (\<lambda>(d, x, sel).
    case x of None \<Rightarrow> 0 | Some n \<Rightarrow> Suc (length (takeWhile (\<lambda>e. snd e \<noteq> n) (tree d))))"
    by (cases "parentNode d n") (auto dest: earlier)
qed


text \<open>
  \<open>AriaAccordion.goToHeader(target)\<close>. A \<open>target\<close> that is \<open>undefined\<close> or \<open>null\<close> makes
  \<open>target.setAttribute\<close> throw.
\<close>

datatype ref = Undefined | Null | Elem nat

definition goToHeader :: "dom \<Rightarrow> ref \<Rightarrow> (error \<times> dom) + dom" where
  "goToHeader d target =
     (case target of
        Elem t \<Rightarrow>
          (let d = setAttribute d t ''aria-selected'' ''true'';
               d = setAttribute d t ''tabindex'' ''null''
           in Inr (d\<lparr>timers := timers d @ [t]\<rparr>))
      | _ \<Rightarrow> Inl (TypeError, d))"

definition keyPageUp :: nat where "keyPageUp = 33"
definition keyPageDown :: nat where "keyPageDown = 34"
definition keyEnd :: nat where "keyEnd = 35"
definition keyHome :: nat where "keyHome = 36"
definition keyLeft :: nat where "keyLeft = 37"
definition keyUp :: nat where "keyUp = 38"
definition keyRight :: nat where "keyRight = 39"
definition keyDown :: nat where "keyDown = 40"

record keys =
  prev :: "nat list"
  "next" :: "nat list"
  first :: nat
  final :: nat

text \<open>The field \<open>final\<close> is the source's \<open>last\<close>.\<close>

definition ltrKeys :: keys where
  "ltrKeys = \<lparr>prev = [keyUp, keyLeft], next = [keyDown, keyRight], first = keyHome, final = keyEnd\<rparr>"

definition rtlKeys :: keys where
  "rtlKeys = \<lparr>prev = [keyUp, keyRight], next = [keyDown, keyLeft], first = keyHome, final = keyEnd\<rparr>"

subsection \<open>Options and construction\<close>

record AriaAccordionOptions =
  headersSelector :: selector
  panelsSelector :: selector
  buttonsSelector :: selector
  buttonsGeneratedContent :: string
  button :: element
  buttonSuffixId :: string
  multiselectable :: bool
  prefixClass :: string
  headerSuffixClass :: string
  buttonSuffixClass :: string
  panelSuffixClass :: string
  direction :: string
  accordionPrefixId :: string

definition defaultButton :: element where
  "defaultButton =
     \<lparr>tagName = ''button'', classList = [''js-accordion__header''],
      attributes = [(''type'', ''button'')], innerHTML = [], innerText = []\<rparr>"

definition defaultConfig :: AriaAccordionOptions where
  "defaultConfig =
     \<lparr>headersSelector = Class ''js-accordion__header'',
      panelsSelector = Class ''js-accordion__panel'',
      buttonsSelector = TagClass ''button'' ''js-accordion__header'',
      buttonsGeneratedContent = ''text'',
      button = defaultButton,
      buttonSuffixId = ''_tab'',
      multiselectable = True,
      prefixClass = ''accordion'',
      headerSuffixClass = ''__title'',
      buttonSuffixClass = ''__header'',
      panelSuffixClass = ''__panel'',
      direction = ''ltr'',
      accordionPrefixId = ''accordion''\<rparr>"

record AriaAccordion =
  options :: AriaAccordionOptions
  root :: nat
  panels :: "nat list"
  buttons :: "nat list"

text \<open>
  The callback of \<open>this.panels.forEach\<close> in \<open>initAttributes\<close>, for one panel and its
  index, in two parts. \<open>initAttributes_aria\<close> is its second half (from \<open>const panelId\<close>
  on): the identifiers and the ARIA attributes of the new button (the clone) and of the
  panel.
  \<open>setAttribute('tabIndex', ...)\<close> on an HTML element writes the attribute \<open>tabindex\<close>;
  \<open>dataset.accordionOpen\<close> is the attribute \<open>data-accordion-open\<close>, and assigning
  \<open>null\<close> to it stores the string \<open>null\<close>.
\<close>

definition initAttributes_aria :: "AriaAccordion \<Rightarrow> dom \<Rightarrow> nat \<Rightarrow> nat \<Rightarrow> nat \<Rightarrow> dom" where
  "initAttributes_aria this d clone panel index =
     (let opts = options this;
          button = clone;
          panelId = (if elem_id d panel \<noteq> [] then elem_id d panel else elem_id d (root this))
                      @ ''-'' @ toString index;
          buttonId = panelId @ buttonSuffixId opts;
          d = setAttribute d button ''aria-controls'' panelId;
          d = setAttribute d button ''aria-expanded'' ''false'';
          d = setAttribute d button ''role'' ''tab'';
          d = setAttribute d button ''id'' buttonId;
          d = setAttribute d button ''tabindex'' ''-1'';
          d = setAttribute d button ''aria-selected'' ''false'';
          d = classList_add d button (prefixClass opts @ buttonSuffixClass opts);
          d = setAttribute d panel ''aria-labelledby'' buttonId;
          d = setAttribute d panel ''role'' ''tabpanel'';
          d = setAttribute d panel ''id'' panelId;
          d = setAttribute d panel ''aria-hidden'' ''true'';
          d = classList_add d panel (prefixClass opts @ panelSuffixClass opts);
          d = (if getAttribute d panel ''data-accordion-open'' = Some ''true''
               then let d = setAttribute d button ''aria-expanded'' ''true'';
                        d = setAttribute d button ''data-accordion-open'' ''null''
                    in setAttribute d panel ''aria-hidden'' ''false''
               else d)
      in if index = 0 then removeAttribute d button ''tabindex'' else d)"

text \<open>
  The first half: the header is looked up, the template button is cloned and filled, the
  header is marked, the button is inserted before the panel. A missing header makes
  \<open>header.innerHTML\<close> (or \<open>header.innerText\<close>) a property access on \<open>null\<close>.
\<close>

definition initAttributes_panel :: "AriaAccordion \<Rightarrow> dom \<Rightarrow> nat \<Rightarrow> nat \<Rightarrow> (error \<times> dom) + dom" where
  "initAttributes_panel this d panel index =
     (let opts = options this;
          header = querySelector d panel (headersSelector opts);
          clone = cloneNode d (button opts);
          button = fst clone;
          d = snd clone
      in case header of
           None \<Rightarrow> Inl (TypeError, d)
         | Some header \<Rightarrow>
     (let d = set_innerHTML d button
                (if buttonsGeneratedContent opts = ''html'' then innerHTML (elem d header)
                 else innerText (elem d header));
          d = setAttribute d header ''tabindex'' ''0'';
          d = classList_add d header (prefixClass opts @ headerSuffixClass opts)
      in case insertBefore d (root this) button panel of
           Inl e \<Rightarrow> Inl (e, d)
         | Inr d \<Rightarrow> Inr (initAttributes_aria this d button panel index)))"

text \<open>The identifier that the callback gives the panel \<open>p\<close> at index \<open>i\<close>.\<close>

definition panelId :: "AriaAccordion \<Rightarrow> dom \<Rightarrow> nat \<Rightarrow> nat \<Rightarrow> string" where
  "panelId this d p i =
     (if elem_id d p \<noteq> [] then elem_id d p else elem_id d (root this)) @ ''-'' @ toString i"

text \<open>\<open>Array.prototype.forEach\<close> with the index; an exception in the callback ends the loop.\<close>

fun forEach :: "(dom \<Rightarrow> nat \<Rightarrow> nat \<Rightarrow> (error \<times> dom) + dom) \<Rightarrow> dom \<Rightarrow> nat list \<Rightarrow> nat
    \<Rightarrow> (error \<times> dom) + dom" where
  "forEach f d [] i = Inr d"
| "forEach f d (x # xs) i =
     (case f d x i of Inl e \<Rightarrow> Inl e | Inr d' \<Rightarrow> forEach f d' xs (Suc i))"

text \<open>
  \<open>initAttributes\<close>. \<open>readableIndex\<close> is the string that
  \<open>Math.random().toString(32).slice(2, 12)\<close> yields in this run.
\<close>

definition initAttributes :: "AriaAccordion \<Rightarrow> string \<Rightarrow> dom \<Rightarrow> (error \<times> dom) + dom" where
  "initAttributes this readableIndex d =
     (let opts = options this;
          d = setAttribute d (root this) ''role'' ''tablist'';
          d = setAttribute d (root this) ''aria-multiselectable''
                (if multiselectable opts then ''true'' else ''false'');
          d = classList_add d (root this) (prefixClass opts);
          d = (if \<not> hasAttribute d (root this) ''id''
               then setAttribute d (root this) ''id'' (accordionPrefixId opts @ ''-'' @ readableIndex)
               else d)
      in forEach (initAttributes_panel this) d (panels this) 0)"

text \<open>
  The constructor: \<open>new AriaAccordion(container, options)\<close>, with \<open>options\<close> already merged
  over the defaults. \<open>initEvents\<close> only registers the four handlers below on the buttons
  and panels and leaves the document as it is. \<open>this.buttons\<close> is read from the decorated
  document.
\<close>

definition new_AriaAccordion :: "nat \<Rightarrow> AriaAccordionOptions \<Rightarrow> string \<Rightarrow> dom
    \<Rightarrow> (error \<times> dom) + (AriaAccordion \<times> dom)" where
  "new_AriaAccordion container opts readableIndex d =
     (let this = \<lparr>options = opts, root = container,
                  panels = querySelectorAll d container (panelsSelector opts), buttons = []\<rparr>
      in case initAttributes this readableIndex d of
           Inl e \<Rightarrow> Inl e
         | Inr d \<Rightarrow>
             Inr (this\<lparr>buttons := querySelectorAll d (root this) (buttonsSelector opts)\<rparr>, d))"

subsection \<open>Event handlers\<close>

text \<open>
  The fields of an event that the handlers read, and the two flags they set.
\<close>

record event =
  target :: nat
  keyCode :: nat
  ctrlKey :: bool
  shiftKey :: bool
  altKey :: bool
  metaKey :: bool
  defaultPrevented :: bool
  propagationStopped :: bool

definition focusButtonEventHandler :: "AriaAccordion \<Rightarrow> dom \<Rightarrow> event \<Rightarrow> (error \<times> dom) + (event \<times> dom)" where
  "focusButtonEventHandler this d ev =
     (let currentButton = closest d (Some (target ev)) (Tag ''button'');
          d = fold (\<lambda>button d.
                  setAttribute (setAttribute d button ''tabindex'' ''-1'') button ''aria-selected'' ''false'')
                (querySelectorAll d (root this) (buttonsSelector (options this))) d
      in case currentButton of
           None \<Rightarrow> Inl (TypeError, d)
         | Some currentButton \<Rightarrow>
             (let d = setAttribute d currentButton ''aria-selected'' ''true'';
                  d = setAttribute d currentButton ''tabindex'' ''null''
              in Inr (ev, d)))"

text \<open>
  \<open>getElementById(x)\<close> converts its argument to a string: \<open>null\<close>, the value of
  \<open>getAttribute\<close> for an absent attribute, becomes \<open>"null"\<close>.
\<close>

definition string_of :: "string option \<Rightarrow> string" where
  "string_of v = (case v of None \<Rightarrow> ''null'' | Some s \<Rightarrow> s)"

definition clickButtonEventHandler :: "AriaAccordion \<Rightarrow> dom \<Rightarrow> event \<Rightarrow> (error \<times> dom) + (event \<times> dom)" where
  "clickButtonEventHandler this d ev =
     (case closest d (Some (target ev)) (Tag ''button'') of
        None \<Rightarrow> Inl (TypeError, d)
      | Some currentButton \<Rightarrow>
     (let currentPanel = getElementById d (string_of (getAttribute d currentButton ''aria-controls''));
          d = fold (\<lambda>button d. setAttribute d button ''aria-selected'' ''false'') (buttons this) d;
          d = setAttribute d currentButton ''aria-selected'' ''true'';
          opening = (getAttribute d currentButton ''aria-expanded'' = Some ''false'');
          d = setAttribute d currentButton ''aria-expanded'' (if opening then ''true'' else ''false'')
      in case currentPanel of
           None \<Rightarrow> Inl (TypeError, d)
         | Some currentPanel \<Rightarrow>
     (let d = setAttribute d currentPanel ''aria-hidden'' (if opening then ''false'' else ''true'');
          d = (if multiselectable (options this) = False
               then let d = fold (\<lambda>panel d.
                              if currentPanel \<noteq> panel then setAttribute d panel ''aria-hidden'' ''true''
                              else d) (panels this) d
                    in fold (\<lambda>button d.
                              if currentButton \<noteq> button then setAttribute d button ''aria-expanded'' ''false''
                              else d) (buttons this) d
               else d);
          d = d\<lparr>timers := timers d @ [currentButton]\<rparr>
      in Inr (ev\<lparr>propagationStopped := True, defaultPrevented := True\<rparr>, d))))"

text \<open>
  Array reads and \<open>indexOf\<close>: an index outside the array reads \<open>undefined\<close>, an absent
  element has index \<open>-1\<close>.
\<close>

definition at :: "nat list \<Rightarrow> int \<Rightarrow> ref" where
  "at xs i = (if 0 \<le> i \<and> i < int (length xs) then Elem (xs ! nat i) else Undefined)"

definition indexOf :: "nat list \<Rightarrow> nat option \<Rightarrow> int" where
  "indexOf xs x =
     (case x of
        None \<Rightarrow> - 1
      | Some n \<Rightarrow> if n \<in> set xs then int (length (takeWhile (\<lambda>y. y \<noteq> n) xs)) else - 1)"

definition ref_of :: "nat option \<Rightarrow> ref" where
  "ref_of x = (case x of None \<Rightarrow> Null | Some n \<Rightarrow> Elem n)"

text \<open>
  \<open>keydownButtonEventHandler\<close>, in two parts: \<open>newTarget\<close> is the value that the
  variable \<open>newTarget\<close> holds after the chain of \<open>if\<close>s (it starts as \<open>null\<close>), and the
  handler is the rest. The button is looked up in the document as the event finds it.
\<close>

definition newTarget :: "AriaAccordion \<Rightarrow> dom \<Rightarrow> event \<Rightarrow> ref" where
  "newTarget this d ev =
     (let currentButton = closest d (Some (target ev)) (Tag ''button'');
          firstButton = at (buttons this) 0;
          lastButton = at (buttons this) (int (length (buttons this)) - 1);
          index = indexOf (buttons this) currentButton;
          keys = (if direction (options this) = ''ltr'' then ltrKeys else rtlKeys)
      in if keyCode ev = keyHome then firstButton
         else if keyCode ev = keyEnd then lastButton
         else if keyCode ev \<in> set (prev keys)
           then (if ref_of currentButton = firstButton then lastButton
                 else at (buttons this) (index - 1))
         else if keyCode ev \<in> set (next keys)
           then (if ref_of currentButton = lastButton then firstButton
                 else at (buttons this) (index + 1))
         else Null)"

definition keydownButtonEventHandler :: "AriaAccordion \<Rightarrow> dom \<Rightarrow> event \<Rightarrow> (error \<times> dom) + (event \<times> dom)" where
  "keydownButtonEventHandler this d ev =
     (let keys = (if direction (options this) = ''ltr'' then ltrKeys else rtlKeys);
          allKeyCode = prev keys @ next keys @ [first keys] @ [final keys]
      in if keyCode ev \<in> set allKeyCode \<and> \<not> ctrlKey ev
         then
           let target = newTarget this d ev;
               d = fold (\<lambda>button d.
                     setAttribute (setAttribute d button ''tabindex'' ''-1'') button ''aria-selected'' ''false'')
                   (buttons this) d
           in case (if target \<noteq> Null then goToHeader d target else Inr d) of
                Inl e \<Rightarrow> Inl e
              | Inr d \<Rightarrow> Inr (ev\<lparr>defaultPrevented := True\<rparr>, d)
         else Inr (ev, d))"

text \<open>
  \<open>keydownPanelEventHandler\<close>. Its first statement looks for a panel among the
  descendants of the event target; its second calls \<open>this.root.getElementById\<close>.
  The container is an \<open>HTMLElement\<close>, and that interface has no method
  \<open>getElementById\<close> (\<open>Document\<close> and \<open>DocumentFragment\<close> have one): the property
  reads \<open>undefined\<close>. JavaScript evaluates the argument, \<open>panel.getAttribute(...)\<close>,
  and then throws because the callee is no function.
\<close>

definition HTMLElement_getElementById :: "(dom \<Rightarrow> nat \<Rightarrow> string \<Rightarrow> nat option) option" where
  "HTMLElement_getElementById = None"

definition keydownPanelEventHandler :: "AriaAccordion \<Rightarrow> dom \<Rightarrow> event \<Rightarrow> (error \<times> dom) + (event \<times> dom)" where
  "keydownPanelEventHandler this d ev =
     (case querySelector d (target ev) (panelsSelector (options this)) of
        None \<Rightarrow> Inl (TypeError, d)
      | Some panel \<Rightarrow>
     (case HTMLElement_getElementById of
        None \<Rightarrow> Inl (TypeError, d)
      | Some root_getElementById \<Rightarrow>
     (let button = root_getElementById d (root this) (string_of (getAttribute d panel ''aria-labelledby''));
          firstButton = at (buttons this) 0;
          lastButton = at (buttons this) (int (length (buttons this)) - 1);
          index = indexOf (buttons this) button
      in if ctrlKey ev
         then
           let target =
                 (if keyCode ev = keyUp then ref_of button
                  else if keyCode ev = keyPageUp
                    then (if ref_of button = firstButton then lastButton
                          else at (buttons this) (index - 1))
                  else if keyCode ev = keyPageDown
                    then (if ref_of button = lastButton then firstButton
                          else at (buttons this) (index + 1))
                  else Null)
           in if target \<noteq> Null
              then case goToHeader d target of
                     Inl e \<Rightarrow> Inl e
                   | Inr d \<Rightarrow> Inr (ev\<lparr>defaultPrevented := True\<rparr>, d)
              else Inr (ev, d)
         else Inr (ev, d))))"

subsection \<open>Runs of events\<close>

text \<open>
  An input is an event delivered to one of the four listeners. The document after the
  listener has run is the one it returns, or the one it had reached when it threw: the
  browser reports an uncaught exception of a listener and goes on.
\<close>

datatype input = Focus event | Click event | KeydownButton event | KeydownPanel event

definition handle :: "AriaAccordion \<Rightarrow> dom \<Rightarrow> input \<Rightarrow> (error \<times> dom) + (event \<times> dom)" where
  "handle this d i =
     (case i of
        Focus ev \<Rightarrow> focusButtonEventHandler this d ev
      | Click ev \<Rightarrow> clickButtonEventHandler this d ev
      | KeydownButton ev \<Rightarrow> keydownButtonEventHandler this d ev
      | KeydownPanel ev \<Rightarrow> keydownPanelEventHandler this d ev)"

text \<open>
  What a call left behind: the document (also when it threw), the value it returned, the
  error it threw.
\<close>

definition dom_of :: "(error \<times> dom) + ('a \<times> dom) \<Rightarrow> dom" where
  "dom_of r = (case r of Inl e \<Rightarrow> snd e | Inr x \<Rightarrow> snd x)"

definition value_of :: "(error \<times> dom) + ('a \<times> dom) \<Rightarrow> 'a option" where
  "value_of r = (case r of Inl e \<Rightarrow> None | Inr x \<Rightarrow> Some (fst x))"

definition error_of :: "(error \<times> dom) + ('a \<times> dom) \<Rightarrow> error option" where
  "error_of r = (case r of Inl e \<Rightarrow> Some (fst e) | Inr x \<Rightarrow> None)"

definition step :: "AriaAccordion \<Rightarrow> dom \<Rightarrow> input \<Rightarrow> dom" where
  "step this d i = dom_of (handle this d i)"

definition run :: "AriaAccordion \<Rightarrow> dom \<Rightarrow> input list \<Rightarrow> dom" where
  "run this d is = foldl (step this) d is"

subsection \<open>The state the specification speaks of\<close>

text \<open>
  A Toggle Control is expanded when its \<open>aria-expanded\<close> is \<open>true\<close>, selected when its
  \<open>aria-selected\<close> is \<open>true\<close>, and reachable by sequential keyboard navigation unless its
  \<open>tabindex\<close> is \<open>-1\<close> (the script writes \<open>-1\<close> and \<open>null\<close> only; a button without a
  valid \<open>tabindex\<close> is in the tab order). A Panel is expanded when its \<open>aria-hidden\<close> is
  \<open>false\<close>.
\<close>

definition expanded :: "dom \<Rightarrow> nat \<Rightarrow> bool" where
  "expanded d b = (getAttribute d b ''aria-expanded'' = Some ''true'')"

definition selected :: "dom \<Rightarrow> nat \<Rightarrow> bool" where
  "selected d b = (getAttribute d b ''aria-selected'' = Some ''true'')"

definition reachable :: "dom \<Rightarrow> nat \<Rightarrow> bool" where
  "reachable d b = (getAttribute d b ''tabindex'' \<noteq> Some ''-1'')"

definition panel_expanded :: "dom \<Rightarrow> nat \<Rightarrow> bool" where
  "panel_expanded d p = (getAttribute d p ''aria-hidden'' = Some ''false'')"


text \<open>
  Focus has moved to the Toggle Control \<open>t\<close>: it is selected and reachable, no other
  tracked Toggle Control is, and its \<open>focus()\<close> is the callback that was scheduled last.
\<close>

definition moved :: "AriaAccordion \<Rightarrow> dom \<Rightarrow> dom \<Rightarrow> nat \<Rightarrow> bool" where
  "moved this d d' t \<longleftrightarrow>
     selected d' t \<and> reachable d' t \<and>
     (\<forall>b \<in> set (buttons this). b \<noteq> t \<longrightarrow> \<not> selected d' b \<and> \<not> reachable d' b) \<and>
     timers d' = timers d @ [t]"

subsection \<open>Example documents\<close>

text \<open>
  A page with an accordion of three panels, the second marked open, the third with an
  \<open>id\<close> of its own; the options are the defaults with \<open>multiselectable\<close> off, as
  \<open>data-accordion-multiselectable="false"\<close> sets it. \<open>decorated\<close> is that page after
  construction.
\<close>

definition mk :: "string \<Rightarrow> string list \<Rightarrow> (string \<times> string) list \<Rightarrow> string \<Rightarrow> string \<Rightarrow> element" where
  "mk t cs as html txt =
     \<lparr>tagName = t, classList = cs, attributes = as, innerHTML = html, innerText = txt\<rparr>"

definition single :: AriaAccordionOptions where
  "single = defaultConfig\<lparr>multiselectable := False\<rparr>"

definition page :: dom where
  "page =
     \<lparr>elems =
        [(0, mk ''html'' [] [] [] []),
         (1, mk ''body'' [] [] [] []),
         (2, mk ''div'' [''js-accordion''] [(''id'', ''acc'')] [] []),
         (3, mk ''div'' [''js-accordion__panel''] [] [] []),
         (4, mk ''h2'' [''js-accordion__header''] [] ''One'' ''One''),
         (5, mk ''div'' [''js-accordion__panel''] [(''data-accordion-open'', ''true'')] [] []),
         (6, mk ''h2'' [''js-accordion__header''] [] ''Two'' ''Two''),
         (7, mk ''div'' [''js-accordion__panel''] [(''id'', ''foo'')] [] []),
         (8, mk ''h2'' [''js-accordion__header''] [] ''Three'' ''Three'')],
      tree = [(0, 0), (1, 1), (2, 2), (3, 3), (4, 4), (3, 5), (4, 6), (3, 7), (4, 8)],
      timers = []\<rparr>"

definition accordion :: AriaAccordion where
  "accordion = \<lparr>options = single, root = 2, panels = [3, 5, 7], buttons = [9, 10, 11]\<rparr>"

definition decorated :: dom where
  "decorated =
     \<lparr>elems =
        [(0, mk ''html'' [] [] [] []),
         (1, mk ''body'' [] [] [] []),
         (2, mk ''div'' [''js-accordion'', ''accordion'']
               [(''id'', ''acc''), (''role'', ''tablist''), (''aria-multiselectable'', ''false'')] [] []),
         (3, mk ''div'' [''js-accordion__panel'', ''accordion__panel'']
               [(''aria-labelledby'', ''acc-0_tab''), (''role'', ''tabpanel''), (''id'', ''acc-0''),
                (''aria-hidden'', ''true'')] [] []),
         (4, mk ''h2'' [''js-accordion__header'', ''accordion__title''] [(''tabindex'', ''0'')]
               ''One'' ''One''),
         (5, mk ''div'' [''js-accordion__panel'', ''accordion__panel'']
               [(''data-accordion-open'', ''true''), (''aria-labelledby'', ''acc-1_tab''),
                (''role'', ''tabpanel''), (''id'', ''acc-1''), (''aria-hidden'', ''false'')] [] []),
         (6, mk ''h2'' [''js-accordion__header'', ''accordion__title''] [(''tabindex'', ''0'')]
               ''Two'' ''Two''),
         (7, mk ''div'' [''js-accordion__panel'', ''accordion__panel'']
               [(''id'', ''foo-2''), (''aria-labelledby'', ''foo-2_tab''), (''role'', ''tabpanel''),
                (''aria-hidden'', ''true'')] [] []),
         (8, mk ''h2'' [''js-accordion__header'', ''accordion__title''] [(''tabindex'', ''0'')]
               ''Three'' ''Three''),
         (9, mk ''button'' [''js-accordion__header'', ''accordion__header'']
               [(''type'', ''button''), (''aria-controls'', ''acc-0''), (''aria-expanded'', ''false''),
                (''role'', ''tab''), (''id'', ''acc-0_tab''), (''aria-selected'', ''false'')]
               ''One'' []),
         (10, mk ''button'' [''js-accordion__header'', ''accordion__header'']
               [(''type'', ''button''), (''aria-controls'', ''acc-1''), (''aria-expanded'', ''true''),
                (''role'', ''tab''), (''id'', ''acc-1_tab''), (''tabindex'', ''-1''),
                (''aria-selected'', ''false''), (''data-accordion-open'', ''null'')]
               ''Two'' []),
         (11, mk ''button'' [''js-accordion__header'', ''accordion__header'']
               [(''type'', ''button''), (''aria-controls'', ''foo-2''), (''aria-expanded'', ''false''),
                (''role'', ''tab''), (''id'', ''foo-2_tab''), (''tabindex'', ''-1''),
                (''aria-selected'', ''false'')]
               ''Three'' [])],
      tree = [(0, 0), (1, 1), (2, 2), (3, 9), (3, 3), (4, 4), (3, 10), (3, 5), (4, 6),
              (3, 11), (3, 7), (4, 8)],
      timers = []\<rparr>"

text \<open>A key press on the element \<open>t\<close>, with the modifiers that are held.\<close>

definition key :: "nat \<Rightarrow> nat \<Rightarrow> bool \<Rightarrow> bool \<Rightarrow> event" where
  "key t k ctrl shift =
     \<lparr>target = t, keyCode = k, ctrlKey = ctrl, shiftKey = shift, altKey = False, metaKey = False,
      defaultPrevented = False, propagationStopped = False\<rparr>"

text \<open>A page whose two panels are both marked open, and one whose panel has no header.\<close>

definition page_two_open :: dom where
  "page_two_open =
     \<lparr>elems =
        [(0, mk ''html'' [] [] [] []),
         (1, mk ''body'' [] [] [] []),
         (2, mk ''div'' [''js-accordion''] [(''id'', ''acc'')] [] []),
         (3, mk ''div'' [''js-accordion__panel''] [(''data-accordion-open'', ''true'')] [] []),
         (4, mk ''h2'' [''js-accordion__header''] [] ''One'' ''One''),
         (5, mk ''div'' [''js-accordion__panel''] [(''data-accordion-open'', ''true'')] [] []),
         (6, mk ''h2'' [''js-accordion__header''] [] ''Two'' ''Two'')],
      tree = [(0, 0), (1, 1), (2, 2), (3, 3), (4, 4), (3, 5), (4, 6)],
      timers = []\<rparr>"

definition page_no_header :: dom where
  "page_no_header =
     \<lparr>elems =
        [(0, mk ''html'' [] [] [] []),
         (1, mk ''body'' [] [] [] []),
         (2, mk ''div'' [''js-accordion''] [(''id'', ''acc'')] [] []),
         (3, mk ''div'' [''js-accordion__panel''] [] [] [])],
      tree = [(0, 0), (1, 1), (2, 2), (3, 3)],
      timers = []\<rparr>"

section \<open>Properties\<close>

subsection \<open>The example\<close>

lemma decorated_page: "new_AriaAccordion 2 single ''r4nd0m'' page = Inr (accordion, decorated)"
  by code_simp

subsection \<open>Reading the document after a write\<close>

lemma elem_put [simp]: "elem (put d n e) m = (if m = n then e else elem d m)"
  by (simp add: elem_def put_def update_conv')

lemma tree_put [simp]: "tree (put d n e) = tree d"
  by (simp add: put_def)

lemma timers_put [simp]: "timers (put d n e) = timers d"
  by (simp add: put_def)

lemma elem_tree_update [simp]: "elem (d\<lparr>tree := t\<rparr>) m = elem d m"
  by (simp add: elem_def)

lemma elem_timers_update [simp]: "elem (d\<lparr>timers := t\<rparr>) m = elem d m"
  by (simp add: elem_def)

lemma getAttribute_setAttribute [simp]:
  "getAttribute (setAttribute d n k v) m j = (if m = n \<and> j = k then Some v else getAttribute d m j)"
  by (simp add: getAttribute_def setAttribute_def update_conv')

lemma getAttribute_removeAttribute [simp]:
  "getAttribute (removeAttribute d n k) m j = (if m = n \<and> j = k then None else getAttribute d m j)"
  by (simp add: getAttribute_def removeAttribute_def delete_conv')

lemma getAttribute_classList_add [simp]: "getAttribute (classList_add d n c) m j = getAttribute d m j"
  by (simp add: getAttribute_def classList_add_def)

lemma getAttribute_set_innerHTML [simp]: "getAttribute (set_innerHTML d n v) m j = getAttribute d m j"
  by (simp add: getAttribute_def set_innerHTML_def)

lemma getAttribute_put_other: "m \<noteq> n \<Longrightarrow> getAttribute (put d n e) m j = getAttribute d m j"
  by (simp add: getAttribute_def)

lemma getAttribute_timers [simp]: "getAttribute (d\<lparr>timers := t\<rparr>) m j = getAttribute d m j"
  by (simp add: getAttribute_def)

lemma getAttribute_tree [simp]: "getAttribute (d\<lparr>tree := t\<rparr>) m j = getAttribute d m j"
  by (simp add: getAttribute_def)

lemma tree_update [simp]:
  "tree (setAttribute d n k v) = tree d"
  "tree (removeAttribute d n k) = tree d"
  "tree (classList_add d n c) = tree d"
  "tree (set_innerHTML d n v) = tree d"
  by (simp_all add: setAttribute_def removeAttribute_def classList_add_def set_innerHTML_def)

lemma timers_update [simp]:
  "timers (setAttribute d n k v) = timers d"
  "timers (removeAttribute d n k) = timers d"
  "timers (classList_add d n c) = timers d"
  "timers (set_innerHTML d n v) = timers d"
  by (simp_all add: setAttribute_def removeAttribute_def classList_add_def set_innerHTML_def)

lemma tagName_update [simp]:
  "tagName (elem (setAttribute d n k v) m) = tagName (elem d m)"
  "tagName (elem (removeAttribute d n k) m) = tagName (elem d m)"
  "tagName (elem (classList_add d n c) m) = tagName (elem d m)"
  "tagName (elem (set_innerHTML d n v) m) = tagName (elem d m)"
  by (simp_all add: setAttribute_def removeAttribute_def classList_add_def set_innerHTML_def)

lemma classList_update [simp]:
  "classList (elem (setAttribute d n k v) m) = classList (elem d m)"
  "classList (elem (removeAttribute d n k) m) = classList (elem d m)"
  "classList (elem (set_innerHTML d n v) m) = classList (elem d m)"
  by (simp_all add: setAttribute_def removeAttribute_def set_innerHTML_def)

lemma matches_cong: "tagName e' = tagName e \<Longrightarrow> classList e' = classList e \<Longrightarrow> matches e' sel = matches e sel"
  by (cases sel) simp_all

lemma matches_update [simp]:
  "matches (elem (setAttribute d n k v) m) sel = matches (elem d m) sel"
  "matches (elem (removeAttribute d n k) m) sel = matches (elem d m) sel"
  "matches (elem (set_innerHTML d n v) m) sel = matches (elem d m) sel"
  by (rule matches_cong; simp)+

lemma getAttribute_fold_reset:
  "getAttribute (fold (\<lambda>button d.
      setAttribute (setAttribute d button ''tabindex'' ''-1'') button ''aria-selected'' ''false'') bs d) m j =
     (if m \<in> set bs \<and> j = ''tabindex'' then Some ''-1''
      else if m \<in> set bs \<and> j = ''aria-selected'' then Some ''false''
      else getAttribute d m j)"
  by (induction bs arbitrary: d) auto

lemma timers_fold_reset [simp]:
  "timers (fold (\<lambda>button d.
      setAttribute (setAttribute d button ''tabindex'' ''-1'') button ''aria-selected'' ''false'') bs d) = timers d"
  by (induction bs arbitrary: d) auto

lemma tree_fold_reset [simp]:
  "tree (fold (\<lambda>button d.
      setAttribute (setAttribute d button ''tabindex'' ''-1'') button ''aria-selected'' ''false'') bs d) = tree d"
  by (induction bs arbitrary: d) auto

lemma closest_self: "tagName (elem d n) = t \<Longrightarrow> closest d (Some n) (Tag t) = Some n"
  by simp

lemma dom_of_simps [simp]: "dom_of (Inl (e, d)) = d" "dom_of (Inr (x, d)) = d"
  by (simp_all add: dom_of_def)

lemma value_of_simps [simp]: "value_of (Inl (e, d)) = None" "value_of (Inr (x, d)) = Some x"
  by (simp_all add: value_of_def)

lemma error_of_simps [simp]: "error_of (Inl (e, d)) = Some e" "error_of (Inr (x, d)) = None"
  by (simp_all add: error_of_def)

lemma at_0: "bs \<noteq> [] \<Longrightarrow> at bs 0 = Elem (hd bs)"
  by (cases bs) (simp_all add: at_def)

lemma at_last: "bs \<noteq> [] \<Longrightarrow> at bs (int (length bs) - 1) = Elem (last bs)"
  by (simp add: at_def last_conv_nth nat_diff_distrib')

lemma keys_disjoint:
  "k \<in> set (prev ltrKeys) \<Longrightarrow> k \<noteq> keyHome \<and> k \<noteq> keyEnd"
  "k \<in> set (prev rtlKeys) \<Longrightarrow> k \<noteq> keyHome \<and> k \<noteq> keyEnd"
  "k \<in> set (next ltrKeys) \<Longrightarrow> k \<noteq> keyHome \<and> k \<noteq> keyEnd \<and> k \<notin> set (prev ltrKeys)"
  "k \<in> set (next rtlKeys) \<Longrightarrow> k \<noteq> keyHome \<and> k \<noteq> keyEnd \<and> k \<notin> set (prev rtlKeys)"
  by (auto simp: ltrKeys_def rtlKeys_def keyHome_def keyEnd_def keyUp_def keyDown_def keyLeft_def keyRight_def)

lemma newTarget_prev_first:
  assumes "buttons this \<noteq> []" "tagName (elem d (hd (buttons this))) = ''button''"
    "target ev = hd (buttons this)"
    "keyCode ev \<in> set (prev (if direction (options this) = ''ltr'' then ltrKeys else rtlKeys))"
  shows "newTarget this d ev = Elem (last (buttons this))"
  using assms keys_disjoint(1,2) [of "keyCode ev"]
  by (simp add: newTarget_def Let_def at_0 at_last ref_of_def split: if_splits)

lemma newTarget_next_last:
  assumes "buttons this \<noteq> []" "tagName (elem d (last (buttons this))) = ''button''"
    "target ev = last (buttons this)"
    "keyCode ev \<in> set (next (if direction (options this) = ''ltr'' then ltrKeys else rtlKeys))"
  shows "newTarget this d ev = Elem (hd (buttons this))"
  using assms keys_disjoint(3,4) [of "keyCode ev"]
  by (simp add: newTarget_def Let_def at_0 at_last ref_of_def split: if_splits)




subsection \<open>Decoration, one panel at a time\<close>

lemma in_tree_lt_bound: "x \<in> set t \<Longrightarrow> snd x < bound t"
  by (induction t) auto

lemma depth_of_in_tree: "depth_of d n = Some k \<Longrightarrow> (k, n) \<in> set (tree d)"
proof -
  assume "depth_of d n = Some k"
  then obtain e rest where e: "dropWhile (\<lambda>e. snd e \<noteq> n) (tree d) = e # rest" "fst e = k"
    by (auto simp: depth_of_def split: list.splits)
  then have "e \<in> set (tree d)" "snd e = n"
    by (metis list.set_intros(1) set_dropWhileD, metis (mono_tags, lifting) e(1) hd_dropWhile list.sel(1) list.simps(3))
  with e show ?thesis by (cases e) auto
qed

lemma depth_of_lt_bound: "depth_of d n = Some k \<Longrightarrow> n < bound (tree d)"
  using depth_of_in_tree in_tree_lt_bound by fastforce

lemma descendants_subset: "set (descendants d n) \<subseteq> set (tree d)"
  by (auto simp: descendants_def split: list.splits dest!: set_takeWhileD)
     (metis list.set_intros(2) set_dropWhileD)

lemma depth_of_cong: "tree d' = tree d \<Longrightarrow> depth_of d' n = depth_of d n"
  by (simp add: depth_of_def)

lemma descendants_cong: "tree d' = tree d \<Longrightarrow> descendants d' n = descendants d n"
  by (simp add: descendants_def)

lemma bound_ins: "r \<in> snd ` set t \<Longrightarrow> bound (ins e r t) = max (Suc (snd e)) (bound t)"
  by (induction t) force+

lemma getAttribute_cloneNode:
  "getAttribute (snd (cloneNode d e)) m j =
     (if m = bound (tree d) then map_of (attributes e) j else getAttribute d m j)"
  by (simp add: cloneNode_def getAttribute_def)

lemma tree_cloneNode [simp]: "tree (snd (cloneNode d e)) = tree d" "fst (cloneNode d e) = bound (tree d)"
  by (simp_all add: cloneNode_def)

lemma timers_cloneNode [simp]: "timers (snd (cloneNode d e)) = timers d"
  by (simp add: cloneNode_def)

lemma insertBefore_Inr:
  assumes "insertBefore d parent new ref = Inr d'"
  shows "\<exists>dr. depth_of d parent = Some dr \<and> depth_of d ref = Some (Suc dr) \<and>
          ref \<in> set (map snd (descendants d parent)) \<and> d' = d\<lparr>tree := ins (Suc dr, new) ref (tree d)\<rparr>"
  using assms by (auto simp: insertBefore_def split: option.splits if_splits)

lemma panel_step:
  assumes "initAttributes_panel this d p i = Inr d'"
  shows "\<exists>h dr d1. querySelector d p (headersSelector (options this)) = Some h \<and>
           depth_of d (root this) = Some dr \<and> depth_of d p = Some (Suc dr) \<and>
           tree d1 = ins (Suc dr, bound (tree d)) p (tree d) \<and> timers d1 = timers d \<and>
           (\<forall>m j. getAttribute d1 m j =
              (if m = h \<and> j = ''tabindex'' then Some ''0''
               else if m = bound (tree d) then map_of (attributes (button (options this))) j
               else getAttribute d m j)) \<and>
           d' = initAttributes_aria this d1 (bound (tree d)) p i"
proof -
  let ?opts = "options this"
  from assms obtain h where h: "querySelector d p (headersSelector ?opts) = Some h"
    by (auto simp: initAttributes_panel_def Let_def split: option.splits)
  define d0 where "d0 = classList_add (setAttribute (set_innerHTML (snd (cloneNode d (button ?opts))) (bound (tree d))
      (if buttonsGeneratedContent ?opts = ''html'' then innerHTML (elem (snd (cloneNode d (button ?opts))) h)
       else innerText (elem (snd (cloneNode d (button ?opts))) h))) h ''tabindex'' ''0'') h (prefixClass ?opts @ headerSuffixClass ?opts)"
  from assms h obtain d1 where d1: "insertBefore d0 (root this) (bound (tree d)) p = Inr d1"
    and d': "d' = initAttributes_aria this d1 (bound (tree d)) p i"
    by (auto simp: initAttributes_panel_def Let_def d0_def split: sum.splits)
  have t0: "tree d0 = tree d" "timers d0 = timers d"
    by (simp_all add: d0_def)
  have a0: "getAttribute d0 m j =
      (if m = h \<and> j = ''tabindex'' then Some ''0''
       else if m = bound (tree d) then map_of (attributes (button ?opts)) j
       else getAttribute d m j)" for m j
    by (simp add: d0_def getAttribute_cloneNode)
  from insertBefore_Inr [OF d1] obtain dr where
    "depth_of d0 (root this) = Some dr" "depth_of d0 p = Some (Suc dr)"
    "d1 = d0\<lparr>tree := ins (Suc dr, bound (tree d)) p (tree d0)\<rparr>"
    by blast
  with t0 a0 h d' show ?thesis
    by (auto simp: depth_of_cong [OF t0(1)] intro!: exI [where x = h] exI [where x = dr] exI [where x = d1])
qed

lemma aria_hidden:
  "getAttribute (initAttributes_aria this d b p i) m ''aria-hidden'' =
     (if m = p then Some (if getAttribute d p ''data-accordion-open'' = Some ''true'' then ''false'' else ''true'')
      else getAttribute d m ''aria-hidden'')"
  by (simp add: initAttributes_aria_def Let_def)

lemma aria_expanded:
  "getAttribute (initAttributes_aria this d b p i) m ''aria-expanded'' =
     (if m = b then Some (if getAttribute d p ''data-accordion-open'' = Some ''true'' then ''true'' else ''false'')
      else getAttribute d m ''aria-expanded'')"
  by (simp add: initAttributes_aria_def Let_def)

lemma aria_tabindex:
  "getAttribute (initAttributes_aria this d b p i) m ''tabindex'' =
     (if m = b then (if i = 0 then None else Some ''-1'')
      else getAttribute d m ''tabindex'')"
  by (simp add: initAttributes_aria_def Let_def)

lemma aria_open:
  "p \<noteq> b \<Longrightarrow> getAttribute (initAttributes_aria this d b p i) p ''data-accordion-open'' =
     getAttribute d p ''data-accordion-open''"
  by (simp add: initAttributes_aria_def Let_def)


lemma aria_other:
  "m \<noteq> b \<Longrightarrow> m \<noteq> p \<Longrightarrow> getAttribute (initAttributes_aria this d b p i) m j = getAttribute d m j"
  by (simp add: initAttributes_aria_def Let_def)

lemma aria_tree [simp]:
  "tree (initAttributes_aria this d b p i) = tree d" "timers (initAttributes_aria this d b p i) = timers d"
  by (simp_all add: initAttributes_aria_def Let_def)

lemma aria_tagName [simp]: "tagName (elem (initAttributes_aria this d b p i) m) = tagName (elem d m)"
  by (simp add: initAttributes_aria_def Let_def)

lemma aria_ids:
  assumes "p \<noteq> b"
  shows "getAttribute (initAttributes_aria this d b p i) p ''id'' = Some (panelId this d p i)"
    "getAttribute (initAttributes_aria this d b p i) b ''id'' = Some (panelId this d p i @ buttonSuffixId (options this))"
    "getAttribute (initAttributes_aria this d b p i) b ''aria-controls'' = Some (panelId this d p i)"
    "getAttribute (initAttributes_aria this d b p i) p ''aria-labelledby'' = Some (panelId this d p i @ buttonSuffixId (options this))"
  using assms by (simp_all add: initAttributes_aria_def Let_def panelId_def)


lemma set_ins: "set (ins e r t) \<subseteq> insert e (set t)"
  by (induction t) auto

lemma depth_of_ins:
  assumes "snd e \<noteq> n"
  shows "depth_of (d\<lparr>tree := ins e r (tree d)\<rparr>) n = depth_of d n"
proof -
  have "(case dropWhile (\<lambda>x. snd x \<noteq> n) (ins e r t) of [] \<Rightarrow> None | x # _ \<Rightarrow> Some (fst x))
      = (case dropWhile (\<lambda>x. snd x \<noteq> n) t of [] \<Rightarrow> None | x # _ \<Rightarrow> Some (fst x))" for t
    using assms by (induction t) auto
  then show ?thesis
    by (simp add: depth_of_def)
qed

lemma descendants_deeper:
  assumes "x \<in> set (descendants d p)" "depth_of d p = Some dp"
  shows "dp < fst x"
  using assms by (auto simp: descendants_def depth_of_def split: list.splits dest: set_takeWhileD)

lemma querySelector_Some:
  assumes "querySelector d p sel = Some h"
  shows "\<exists>dh. (dh, h) \<in> set (descendants d p) \<and> matches (elem d h) sel"
proof -
  from assms have "h \<in> set (querySelectorAll d p sel)"
    by (auto simp: querySelector_def split: list.splits)
  then show ?thesis
    by (auto simp: querySelectorAll_def)
qed

text \<open>One successful round of the loop over the panels.\<close>

lemma panel_step':
  assumes "initAttributes_panel this d p i = Inr d'"
  obtains h dr d1 where
    "querySelector d p (headersSelector (options this)) = Some h"
    "depth_of d (root this) = Some dr" "depth_of d p = Some (Suc dr)"
    "tree d1 = ins (Suc dr, bound (tree d)) p (tree d)" "timers d1 = timers d"
    "\<forall>m j. getAttribute d1 m j =
        (if m = h \<and> j = ''tabindex'' then Some ''0''
         else if m = bound (tree d) then map_of (attributes (button (options this))) j
         else getAttribute d m j)"
    "d' = initAttributes_aria this d1 (bound (tree d)) p i"
    "p < bound (tree d)" "root this < bound (tree d)" "p \<noteq> root this"
    "bound (tree d') = Suc (bound (tree d))"
proof -
  from panel_step [OF assms] obtain h dr d1 where *:
    "querySelector d p (headersSelector (options this)) = Some h"
    "depth_of d (root this) = Some dr" "depth_of d p = Some (Suc dr)"
    "tree d1 = ins (Suc dr, bound (tree d)) p (tree d)" "timers d1 = timers d"
    "\<forall>m j. getAttribute d1 m j =
        (if m = h \<and> j = ''tabindex'' then Some ''0''
         else if m = bound (tree d) then map_of (attributes (button (options this))) j
         else getAttribute d m j)"
    "d' = initAttributes_aria this d1 (bound (tree d)) p i"
    by blast
  have lt: "p < bound (tree d)" "root this < bound (tree d)"
    using * by (auto dest: depth_of_lt_bound)
  have ne: "p \<noteq> root this"
    using * by auto
  have "p \<in> snd ` set (tree d)"
    using depth_of_in_tree [OF *(3)] by force
  then have "bound (tree d') = Suc (bound (tree d))"
    using * by (simp add: bound_ins)
  with * lt ne show ?thesis
    by (intro that [of h dr d1]) auto
qed

lemma forEach_Cons:
  assumes "forEach f d (p # ps) i = Inr d'"
  obtains d1 where "f d p i = Inr d1" "forEach f d1 ps (Suc i) = Inr d'"
  using assms by (auto split: sum.splits)

lemma forEach_bound:
  "forEach (initAttributes_panel this) d ps i = Inr d' \<Longrightarrow>
     bound (tree d') = bound (tree d) + length ps \<and> timers d' = timers d"
proof (induction ps arbitrary: d i)
  case Nil
  then show ?case by simp
next
  case (Cons p ps)
  from Cons.prems obtain d1 where s: "initAttributes_panel this d p i = Inr d1"
    and r: "forEach (initAttributes_panel this) d1 ps (Suc i) = Inr d'"
    by (rule forEach_Cons)
  from s have "bound (tree d1) = Suc (bound (tree d))" "timers d1 = timers d"
    by (auto elim!: panel_step')
  with Cons.IH [OF r] show ?case by simp
qed

lemma step_open:
  assumes "initAttributes_panel this d p i = Inr d'" "m < bound (tree d)"
  shows "getAttribute d' m ''data-accordion-open'' = getAttribute d m ''data-accordion-open''"
proof -
  from assms(1) obtain h d1 where
    g: "\<forall>m j. getAttribute d1 m j =
        (if m = h \<and> j = ''tabindex'' then Some ''0''
         else if m = bound (tree d) then map_of (attributes (button (options this))) j
         else getAttribute d m j)"
    and d': "d' = initAttributes_aria this d1 (bound (tree d)) p i"
    by (rule panel_step') blast
  have "getAttribute (initAttributes_aria this d1 (bound (tree d)) p i) m ''data-accordion-open''
      = getAttribute d1 m ''data-accordion-open''"
    using assms(2) by (simp add: initAttributes_aria_def Let_def)
  then show ?thesis
    using assms(2) by (simp add: d' g)
qed

lemma step_hidden:
  assumes "initAttributes_panel this d p i = Inr d'" "m < bound (tree d)"
  shows "getAttribute d' m ''aria-hidden'' =
     (if m = p then Some (if getAttribute d p ''data-accordion-open'' = Some ''true'' then ''false'' else ''true'')
      else getAttribute d m ''aria-hidden'')"
proof -
  from assms(1) obtain h d1 where
    g: "\<forall>m j. getAttribute d1 m j =
        (if m = h \<and> j = ''tabindex'' then Some ''0''
         else if m = bound (tree d) then map_of (attributes (button (options this))) j
         else getAttribute d m j)"
    and d': "d' = initAttributes_aria this d1 (bound (tree d)) p i"
    and lt: "p < bound (tree d)"
    by (rule panel_step') blast
  show ?thesis
    using assms(2) lt by (simp add: d' aria_hidden g)
qed

lemma step_expanded:
  assumes "initAttributes_panel this d p i = Inr d'" "m \<le> bound (tree d)"
  shows "getAttribute d' m ''aria-expanded'' =
     (if m = bound (tree d)
      then Some (if getAttribute d p ''data-accordion-open'' = Some ''true'' then ''true'' else ''false'')
      else getAttribute d m ''aria-expanded'')"
proof -
  from assms(1) obtain h d1 where
    g: "\<forall>m j. getAttribute d1 m j =
        (if m = h \<and> j = ''tabindex'' then Some ''0''
         else if m = bound (tree d) then map_of (attributes (button (options this))) j
         else getAttribute d m j)"
    and d': "d' = initAttributes_aria this d1 (bound (tree d)) p i"
    and lt: "p < bound (tree d)"
    by (rule panel_step') blast
  show ?thesis
    using assms(2) lt by (simp add: d' aria_expanded g)
qed

lemma step_other:
  assumes "initAttributes_panel this d p i = Inr d'" "m < bound (tree d)" "m \<noteq> p" "j \<noteq> ''tabindex''"
  shows "getAttribute d' m j = getAttribute d m j"
proof -
  from assms(1) obtain h d1 where
    g: "\<forall>m j. getAttribute d1 m j =
        (if m = h \<and> j = ''tabindex'' then Some ''0''
         else if m = bound (tree d) then map_of (attributes (button (options this))) j
         else getAttribute d m j)"
    and d': "d' = initAttributes_aria this d1 (bound (tree d)) p i"
    by (rule panel_step') blast
  show ?thesis
    using assms(2-) by (simp add: d' aria_other g)
qed


lemma step_bound:
  assumes "initAttributes_panel this d p i = Inr d'"
  shows "bound (tree d') = Suc (bound (tree d))" "p < bound (tree d)"
  using assms by (auto elim!: panel_step')

lemma forEach_open:
  "forEach (initAttributes_panel this) d ps i = Inr d' \<Longrightarrow> m < bound (tree d) \<Longrightarrow>
     getAttribute d' m ''data-accordion-open'' = getAttribute d m ''data-accordion-open''"
proof (induction ps arbitrary: d i)
  case Nil
  then show ?case by simp
next
  case (Cons p ps)
  from Cons.prems(1) obtain d1 where s: "initAttributes_panel this d p i = Inr d1"
    and r: "forEach (initAttributes_panel this) d1 ps (Suc i) = Inr d'"
    by (rule forEach_Cons)
  have "m < bound (tree d1)"
    using step_bound(1) [OF s] Cons.prems(2) by simp
  from Cons.IH [OF r this] step_open [OF s Cons.prems(2)] show ?case
    by simp
qed

lemma forEach_hidden:
  "forEach (initAttributes_panel this) d ps i = Inr d' \<Longrightarrow> m < bound (tree d) \<Longrightarrow>
     getAttribute d' m ''aria-hidden'' =
       (if m \<in> set ps
        then Some (if getAttribute d m ''data-accordion-open'' = Some ''true'' then ''false'' else ''true'')
        else getAttribute d m ''aria-hidden'')"
proof (induction ps arbitrary: d i)
  case Nil
  then show ?case by simp
next
  case (Cons p ps)
  from Cons.prems(1) obtain d1 where s: "initAttributes_panel this d p i = Inr d1"
    and r: "forEach (initAttributes_panel this) d1 ps (Suc i) = Inr d'"
    by (rule forEach_Cons)
  have m: "m < bound (tree d1)"
    using step_bound(1) [OF s] Cons.prems(2) by simp
  show ?case
    using Cons.IH [OF r m] step_open [OF s Cons.prems(2)] step_hidden [OF s Cons.prems(2)]
    by auto
qed

lemma forEach_expanded_old:
  "forEach (initAttributes_panel this) d ps i = Inr d' \<Longrightarrow> m < bound (tree d) \<Longrightarrow>
     getAttribute d' m ''aria-expanded'' = getAttribute d m ''aria-expanded''"
proof (induction ps arbitrary: d i)
  case Nil
  then show ?case by simp
next
  case (Cons p ps)
  from Cons.prems(1) obtain d1 where s: "initAttributes_panel this d p i = Inr d1"
    and r: "forEach (initAttributes_panel this) d1 ps (Suc i) = Inr d'"
    by (rule forEach_Cons)
  have m: "m < bound (tree d1)"
    using step_bound(1) [OF s] Cons.prems(2) by simp
  show ?case
    using Cons.IH [OF r m] step_expanded [OF s, of m] Cons.prems(2) by simp
qed

lemma forEach_expanded_new:
  "forEach (initAttributes_panel this) d ps i = Inr d' \<Longrightarrow> k < length ps \<Longrightarrow>
   \<forall>p \<in> set ps. p < bound (tree d) \<Longrightarrow>
     getAttribute d' (bound (tree d) + k) ''aria-expanded'' =
       Some (if getAttribute d (ps ! k) ''data-accordion-open'' = Some ''true'' then ''true'' else ''false'')"
proof (induction ps arbitrary: d i k)
  case Nil
  then show ?case by simp
next
  case (Cons p ps)
  from Cons.prems(1) obtain d1 where s: "initAttributes_panel this d p i = Inr d1"
    and r: "forEach (initAttributes_panel this) d1 ps (Suc i) = Inr d'"
    by (rule forEach_Cons)
  note b = step_bound [OF s]
  show ?case
  proof (cases k)
    case 0
    have "getAttribute d' (bound (tree d)) ''aria-expanded'' = getAttribute d1 (bound (tree d)) ''aria-expanded''"
      using forEach_expanded_old [OF r, of "bound (tree d)"] b by simp
    then show ?thesis
      using 0 step_expanded [OF s, of "bound (tree d)"] by simp
  next
    case (Suc k')
    then have k': "k' < length ps"
      using Cons.prems(2) by simp
    have lt: "ps ! k' < bound (tree d)"
      using Cons.prems(3) k' by simp
    have "\<forall>p \<in> set ps. p < bound (tree d1)"
      using Cons.prems(3) b by auto
    from Cons.IH [OF r k' this] show ?thesis
      using Suc b step_open [OF s lt] by simp
  qed
qed


lemma step_tabindex:
  assumes "initAttributes_panel this d p i = Inr d'"
  obtains h dh dr where
    "(dh, h) \<in> set (descendants d p)" "Suc dr < dh"
    "depth_of d (root this) = Some dr" "depth_of d' (root this) = Some dr"
    "set (tree d') \<subseteq> insert (Suc dr, bound (tree d)) (set (tree d))"
    "\<forall>m. getAttribute d' m ''tabindex'' =
       (if m = bound (tree d) then (if i = 0 then None else Some ''-1'')
        else if m = h then Some ''0'' else getAttribute d m ''tabindex'')"
proof -
  from assms obtain h dr d1 where *:
    "querySelector d p (headersSelector (options this)) = Some h"
    "depth_of d (root this) = Some dr" "depth_of d p = Some (Suc dr)"
    "tree d1 = ins (Suc dr, bound (tree d)) p (tree d)"
    and g: "\<forall>m j. getAttribute d1 m j =
        (if m = h \<and> j = ''tabindex'' then Some ''0''
         else if m = bound (tree d) then map_of (attributes (button (options this))) j
         else getAttribute d m j)"
    and d': "d' = initAttributes_aria this d1 (bound (tree d)) p i"
    and lt: "root this < bound (tree d)"
    by (rule panel_step') blast
  from querySelector_Some [OF *(1)] obtain dh where dh: "(dh, h) \<in> set (descendants d p)"
    by blast
  from descendants_deeper [OF dh *(3)] have deeper: "Suc dr < dh"
    by simp
  have "depth_of (d\<lparr>tree := ins (Suc dr, bound (tree d)) p (tree d)\<rparr>) (root this) = depth_of d (root this)"
    using lt by (intro depth_of_ins) simp
  moreover have "tree d' = tree (d\<lparr>tree := ins (Suc dr, bound (tree d)) p (tree d)\<rparr>)"
    using * d' by simp
  ultimately have r': "depth_of d' (root this) = Some dr"
    using *(2) by (simp add: depth_of_def)
  have sub: "set (tree d') \<subseteq> insert (Suc dr, bound (tree d)) (set (tree d))"
    using * d' set_ins by simp
  have "\<forall>m. getAttribute d' m ''tabindex'' =
       (if m = bound (tree d) then (if i = 0 then None else Some ''-1'')
        else if m = h then Some ''0'' else getAttribute d m ''tabindex'')"
    by (simp add: d' aria_tabindex g)
  with dh deeper *(2) r' sub show ?thesis
    by (rule that)
qed

lemma forEach_tabindex:
  assumes "forEach (initAttributes_panel this) d ps i = Inr d'"
    and "\<forall>x \<in> set (tree d). n0 \<le> snd x \<longrightarrow> Some (fst x) = map_option Suc (depth_of d (root this))"
    and "n0 \<le> bound (tree d)"
  shows "(\<forall>m. n0 \<le> m \<and> m < bound (tree d) \<longrightarrow> getAttribute d' m ''tabindex'' = getAttribute d m ''tabindex'') \<and>
         (\<forall>k < length ps. getAttribute d' (bound (tree d) + k) ''tabindex'' =
            (if i + k = 0 then None else Some ''-1''))"
  using assms
proof (induction ps arbitrary: d i)
  case Nil
  then show ?case by simp
next
  case (Cons p ps)
  from Cons.prems(1) obtain d1 where s: "initAttributes_panel this d p i = Inr d1"
    and r: "forEach (initAttributes_panel this) d1 ps (Suc i) = Inr d'"
    by (rule forEach_Cons)
  note b = step_bound [OF s]
  from s obtain h dh dr where h: "(dh, h) \<in> set (descendants d p)" "Suc dr < dh"
    and dr: "depth_of d (root this) = Some dr" "depth_of d1 (root this) = Some dr"
    and sub: "set (tree d1) \<subseteq> insert (Suc dr, bound (tree d)) (set (tree d))"
    and t: "\<forall>m. getAttribute d1 m ''tabindex'' =
       (if m = bound (tree d) then (if i = 0 then None else Some ''-1'')
        else if m = h then Some ''0'' else getAttribute d m ''tabindex'')"
    by (rule step_tabindex)
  have "(dh, h) \<in> set (tree d)"
    using h(1) descendants_subset by blast
  then have old: "h < n0"
    using Cons.prems(2) h(2) dr(1) by (fastforce simp: not_le [symmetric])
  have K1: "\<forall>x \<in> set (tree d1). n0 \<le> snd x \<longrightarrow> Some (fst x) = map_option Suc (depth_of d1 (root this))"
    using sub Cons.prems(2) dr by auto
  have n1: "n0 \<le> bound (tree d1)"
    using b Cons.prems(3) by simp
  note IH = Cons.IH [OF r K1 n1]
  show ?case
  proof (intro conjI allI impI)
    fix m assume m: "n0 \<le> m \<and> m < bound (tree d)"
    then have "getAttribute d' m ''tabindex'' = getAttribute d1 m ''tabindex''"
      using IH b by simp
    also have "\<dots> = getAttribute d m ''tabindex''"
      using t m old by simp
    finally show "getAttribute d' m ''tabindex'' = getAttribute d m ''tabindex''" .
  next
    fix k assume k: "k < length (p # ps)"
    show "getAttribute d' (bound (tree d) + k) ''tabindex'' = (if i + k = 0 then None else Some ''-1'')"
    proof (cases k)
      case 0
      have "getAttribute d' (bound (tree d)) ''tabindex'' = getAttribute d1 (bound (tree d)) ''tabindex''"
        using IH b Cons.prems(3) by simp
      then show ?thesis
        using 0 t by simp
    next
      case (Suc k')
      then have "k' < length ps"
        using k by simp
      then have "getAttribute d' (bound (tree d1) + k') ''tabindex'' = (if Suc i + k' = 0 then None else Some ''-1'')"
        using IH by blast
      then show ?thesis
        using Suc b by simp
    qed
  qed
qed

lemma forEach_other:
  "forEach (initAttributes_panel this) d ps i = Inr d' \<Longrightarrow> m < bound (tree d) \<Longrightarrow> m \<notin> set ps \<Longrightarrow>
   j \<noteq> ''tabindex'' \<Longrightarrow> getAttribute d' m j = getAttribute d m j"
proof (induction ps arbitrary: d i)
  case Nil
  then show ?case by simp
next
  case (Cons p ps)
  from Cons.prems(1) obtain d1 where s: "initAttributes_panel this d p i = Inr d1"
    and r: "forEach (initAttributes_panel this) d1 ps (Suc i) = Inr d'"
    by (rule forEach_Cons)
  have m: "m < bound (tree d1)" "m \<notin> set ps" "m \<noteq> p"
    using step_bound(1) [OF s] Cons.prems by simp_all
  show ?case
    using Cons.IH [OF r m(1,2) Cons.prems(4)] step_other [OF s Cons.prems(2) m(3) Cons.prems(4)]
    by simp
qed


lemma panelId_cong:
  "elem_id d' p = elem_id d p \<Longrightarrow> elem_id d' (root this) = elem_id d (root this) \<Longrightarrow>
   panelId this d' p i = panelId this d p i"
  by (simp add: panelId_def)

lemma step_ids:
  assumes "initAttributes_panel this d p i = Inr d'"
  shows "getAttribute d' p ''id'' = Some (panelId this d p i)"
    "getAttribute d' (bound (tree d)) ''id'' = Some (panelId this d p i @ buttonSuffixId (options this))"
    "getAttribute d' (bound (tree d)) ''aria-controls'' = Some (panelId this d p i)"
    "getAttribute d' p ''aria-labelledby'' = Some (panelId this d p i @ buttonSuffixId (options this))"
    "root this < bound (tree d)" "p \<noteq> root this"
proof -
  from assms obtain h d1 where
    g: "\<forall>m j. getAttribute d1 m j =
        (if m = h \<and> j = ''tabindex'' then Some ''0''
         else if m = bound (tree d) then map_of (attributes (button (options this))) j
         else getAttribute d m j)"
    and d': "d' = initAttributes_aria this d1 (bound (tree d)) p i"
    and lt: "p < bound (tree d)" "root this < bound (tree d)" "p \<noteq> root this"
    by (rule panel_step') blast
  have "panelId this d1 p i = panelId this d p i"
    using lt g by (intro panelId_cong) (simp_all add: elem_id_def)
  then show "getAttribute d' p ''id'' = Some (panelId this d p i)"
    "getAttribute d' (bound (tree d)) ''id'' = Some (panelId this d p i @ buttonSuffixId (options this))"
    "getAttribute d' (bound (tree d)) ''aria-controls'' = Some (panelId this d p i)"
    "getAttribute d' p ''aria-labelledby'' = Some (panelId this d p i @ buttonSuffixId (options this))"
    using lt(1) aria_ids [of p "bound (tree d)" this d1 i] by (simp_all add: d')
  show "root this < bound (tree d)" "p \<noteq> root this"
    using lt by simp_all
qed

lemma forEach_ids:
  assumes "forEach (initAttributes_panel this) d ps i = Inr d'" "distinct ps"
    "\<forall>p \<in> set ps. p < bound (tree d)" "k < length ps"
  shows "getAttribute d' (ps ! k) ''id'' = Some (panelId this d (ps ! k) (i + k)) \<and>
         getAttribute d' (bound (tree d) + k) ''id''
           = Some (panelId this d (ps ! k) (i + k) @ buttonSuffixId (options this)) \<and>
         getAttribute d' (bound (tree d) + k) ''aria-controls'' = Some (panelId this d (ps ! k) (i + k)) \<and>
         getAttribute d' (ps ! k) ''aria-labelledby''
           = Some (panelId this d (ps ! k) (i + k) @ buttonSuffixId (options this))"
  using assms
proof (induction ps arbitrary: d i k)
  case Nil
  then show ?case by simp
next
  case (Cons p ps)
  from Cons.prems(1) obtain d1 where s: "initAttributes_panel this d p i = Inr d1"
    and r: "forEach (initAttributes_panel this) d1 ps (Suc i) = Inr d'"
    by (rule forEach_Cons)
  note b = step_bound [OF s]
  note ids = step_ids [OF s]
  have lt1: "\<forall>p \<in> set ps. p < bound (tree d1)"
    using Cons.prems(3) b by auto
  show ?case
  proof (cases k)
    case 0
    have p: "p < bound (tree d1)" "p \<notin> set ps"
      using b Cons.prems(2) by simp_all
    have n: "bound (tree d) < bound (tree d1)" "bound (tree d) \<notin> set ps"
      using b Cons.prems(3) by auto
    show ?thesis
      using 0 ids(1-4) forEach_other [OF r p] forEach_other [OF r n] by simp
  next
    case (Suc k')
    then have k': "k' < length ps"
      using Cons.prems(4) by simp
    then have q: "ps ! k' < bound (tree d)" "ps ! k' \<noteq> p"
      using Cons.prems(2,3) by auto
    have "panelId this d1 (ps ! k') (Suc i + k') = panelId this d (ps ! k') (Suc i + k')"
      using step_other [OF s q, of "''id''"] step_other [OF s ids(5) ids(6) [symmetric], of "''id''"]
      by (intro panelId_cong) (simp_all add: elem_id_def)
    with Cons.IH [OF r _ lt1 k'] Cons.prems(2) show ?thesis
      using Suc b by simp
  qed
qed

subsection \<open>Key presses on a Toggle Control\<close>

lemma keydown_moves:
  assumes "newTarget this d ev = Elem t" "\<not> ctrlKey ev"
    "keyCode ev \<in> set (prev keys) \<or> keyCode ev \<in> set (next keys)"
    "keys = (if direction (options this) = ''ltr'' then ltrKeys else rtlKeys)"
  shows "\<exists>d'. keydownButtonEventHandler this d ev = Inr (ev\<lparr>defaultPrevented := True\<rparr>, d') \<and> moved this d d' t"
  using assms
  by (auto simp: keydownButtonEventHandler_def Let_def goToHeader_def moved_def selected_def reachable_def
      getAttribute_fold_reset)

text \<open>
  C10. A key press handled on a Toggle Control leaves the \<open>aria-hidden\<close> and the
  \<open>aria-expanded\<close> attribute of every element as they were, whatever the key, the
  modifiers and the target, and also when the handler throws: no panel is expanded or
  collapsed.
\<close>

theorem keydown_on_toggle_keeps_panels:
  "getAttribute (step this d (KeydownButton ev)) n ''aria-hidden'' = getAttribute d n ''aria-hidden'' \<and>
   getAttribute (step this d (KeydownButton ev)) n ''aria-expanded'' = getAttribute d n ''aria-expanded'' \<and>
   panel_expanded (step this d (KeydownButton ev)) n = panel_expanded d n \<and>
   expanded (step this d (KeydownButton ev)) n = expanded d n"
  by (simp add: step_def handle_def keydownButtonEventHandler_def Let_def goToHeader_def
      getAttribute_fold_reset panel_expanded_def expanded_def split: ref.splits)

text \<open>
  C4. The handler of a key press inside a panel throws \<open>TypeError\<close> before it reads the
  key: for every accordion, document and event, Ctrl+Up included, it moves no focus and
  changes nothing.
\<close>

theorem keydown_on_panel_throws:
  "keydownPanelEventHandler this d ev = Inl (TypeError, d)"
  by (simp add: keydownPanelEventHandler_def HTMLElement_getElementById_def split: option.splits)




text \<open>
  C7. On a non-empty sequence of Toggle Controls that are \<open>button\<close> elements, and
  without Ctrl, a "previous" key on the first Toggle Control moves focus to the last one
  and a "next" key on the last moves it to the first: the target is selected and
  reachable, no other tracked Toggle Control is, its \<open>focus()\<close> is scheduled and the
  default action is prevented.
\<close>

theorem circular_navigation:
  assumes "buttons this \<noteq> []"
    and "\<forall>b \<in> set (buttons this). tagName (elem d b) = ''button''"
    and "\<not> ctrlKey ev"
    and "keys = (if direction (options this) = ''ltr'' then ltrKeys else rtlKeys)"
  shows "(keyCode ev \<in> set (prev keys) \<and> target ev = hd (buttons this) \<longrightarrow>
           (\<exists>d'. keydownButtonEventHandler this d ev = Inr (ev\<lparr>defaultPrevented := True\<rparr>, d') \<and>
                 moved this d d' (last (buttons this)))) \<and>
         (keyCode ev \<in> set (next keys) \<and> target ev = last (buttons this) \<longrightarrow>
           (\<exists>d'. keydownButtonEventHandler this d ev = Inr (ev\<lparr>defaultPrevented := True\<rparr>, d') \<and>
                 moved this d d' (hd (buttons this))))"
proof (intro conjI impI)
  assume a: "keyCode ev \<in> set (prev keys) \<and> target ev = hd (buttons this)"
  have "newTarget this d ev = Elem (last (buttons this))"
    using assms a by (intro newTarget_prev_first) auto
  then show "\<exists>d'. keydownButtonEventHandler this d ev = Inr (ev\<lparr>defaultPrevented := True\<rparr>, d') \<and>
      moved this d d' (last (buttons this))"
    using assms a by (intro keydown_moves [where keys = keys]) auto
next
  assume a: "keyCode ev \<in> set (next keys) \<and> target ev = last (buttons this)"
  have "newTarget this d ev = Elem (hd (buttons this))"
    using assms a by (intro newTarget_next_last) auto
  then show "\<exists>d'. keydownButtonEventHandler this d ev = Inr (ev\<lparr>defaultPrevented := True\<rparr>, d') \<and>
      moved this d d' (hd (buttons this))"
    using assms a by (intro keydown_moves [where keys = keys]) auto
qed

theorem circular_navigation_witness:
  "(\<exists>d'. keydownButtonEventHandler accordion decorated (key 9 keyUp False False)
           = Inr ((key 9 keyUp False False)\<lparr>defaultPrevented := True\<rparr>, d') \<and>
         moved accordion decorated d' 11) \<and>
   (\<exists>d'. keydownButtonEventHandler accordion decorated (key 11 keyRight False False)
           = Inr ((key 11 keyRight False False)\<lparr>defaultPrevented := True\<rparr>, d') \<and>
         moved accordion decorated d' 9)"
proof -
  have h1: "buttons accordion \<noteq> []"
    by (simp add: accordion_def)
  have h2: "\<forall>b \<in> set (buttons accordion). tagName (elem decorated b) = ''button''"
    by code_simp
  have h3: "\<not> ctrlKey (key 9 keyUp False False)" "\<not> ctrlKey (key 11 keyRight False False)"
    by (simp_all add: key_def)
  have h4: "ltrKeys = (if direction (options accordion) = ''ltr'' then ltrKeys else rtlKeys)"
    by (simp add: accordion_def single_def defaultConfig_def)
  have up: "keyCode (key 9 keyUp False False) \<in> set (prev ltrKeys) \<and>
      target (key 9 keyUp False False) = hd (buttons accordion)"
    by (simp add: key_def ltrKeys_def accordion_def)
  have right: "keyCode (key 11 keyRight False False) \<in> set (next ltrKeys) \<and>
      target (key 11 keyRight False False) = last (buttons accordion)"
    by (simp add: key_def ltrKeys_def accordion_def)
  have l: "last (buttons accordion) = 11" and f: "hd (buttons accordion) = 9"
    by (simp_all add: accordion_def)
  show ?thesis
    using circular_navigation [OF h1 h2 h3(1) h4] circular_navigation [OF h1 h2 h3(2) h4] up right
    unfolding l f by blast
qed

end
